theory Spec2Isabelle
  imports Main "HOL-Library.Char_ord"
begin

section \<open>Python values and errors\<close>

text \<open>
  The repository holds two Streamlit forms: \<^verbatim>\<open>form_validation.py\<close> (validation on
  submit, called variant A below, suffix \<open>_A\<close>) and \<^verbatim>\<open>form_validation2.py\<close>
  (validation on every change, variant B, suffix \<open>_B\<close>). Both define functions of the
  same names, hence the suffixes.

  A Python \<^verbatim>\<open>str\<close> is a \<^typ>\<open>string\<close>; a \<^typ>\<open>char\<close> stands for the code point
  of the same number (0 to 255). A raw field value is a string or an integer, as the
  text and number widgets deliver them. An exception is a value of \<open>pyerr\<close>, and a
  function that can raise returns \<open>pyerr + 'a\<close>.
\<close>

datatype pyval = PStr string | PInt int

datatype pyerr = ValueError | TypeError | OverflowError | AttributeError

section \<open>Character classes and \<^verbatim>\<open>re.match\<close>\<close>

definition lower :: "char \<Rightarrow> bool" where
  "lower c = (CHR ''a'' \<le> c \<and> c \<le> CHR ''z'')"

definition upper :: "char \<Rightarrow> bool" where
  "upper c = (CHR ''A'' \<le> c \<and> c \<le> CHR ''Z'')"

definition digit :: "char \<Rightarrow> bool" where
  "digit c = (CHR ''0'' \<le> c \<and> c \<le> CHR ''9'')"

text \<open>
  \<^verbatim>\<open>\s\<close> in a \<^verbatim>\<open>str\<close> pattern: the code points for which \<^verbatim>\<open>str.isspace()\<close> holds,
  here those below 256.
\<close>

definition space :: "char \<Rightarrow> bool" where
  "space c = (let n = of_char c :: nat in
     (9 \<le> n \<and> n \<le> 13) \<or> (28 \<le> n \<and> n \<le> 32) \<or> n = 133 \<or> n = 160)"

text \<open>
  Every pattern of the two files is a sequence of character classes, each with a
  repetition count, between \<^verbatim>\<open>^\<close> and \<^verbatim>\<open>$\<close>; the groups capture only. An item
  \<open>(p, lo, hi)\<close> is the class \<open>p\<close> repeated \<open>lo\<close> to \<open>hi\<close> times (\<open>None\<close>: no upper
  bound).
\<close>

type_synonym item = "(char \<Rightarrow> bool) \<times> nat \<times> nat option"

type_synonym pattern = "item list"

definition one :: "(char \<Rightarrow> bool) \<Rightarrow> item" where
  "one p = (p, 1, Some 1)"

definition opt :: "(char \<Rightarrow> bool) \<Rightarrow> item" where
  "opt p = (p, 0, Some 1)"

definition plus1 :: "(char \<Rightarrow> bool) \<Rightarrow> item" where
  "plus1 p = (p, 1, None)"

definition rep :: "(char \<Rightarrow> bool) \<Rightarrow> nat \<Rightarrow> item" where
  "rep p n = (p, n, Some n)"

definition rep_between :: "(char \<Rightarrow> bool) \<Rightarrow> nat \<Rightarrow> nat \<Rightarrow> item" where
  "rep_between p lo hi = (p, lo, Some hi)"

definition rep_from :: "(char \<Rightarrow> bool) \<Rightarrow> nat \<Rightarrow> item" where
  "rep_from p lo = (p, lo, None)"

text \<open>
  \<open>consume p lo hi s\<close> lists what can remain of \<open>s\<close> after the item has taken its
  characters: every way the matcher may backtrack into.
\<close>

fun consume :: "(char \<Rightarrow> bool) \<Rightarrow> nat \<Rightarrow> nat option \<Rightarrow> string \<Rightarrow> string list" where
  "consume p lo hi [] = (if lo = 0 then [[]] else [])"
| "consume p lo hi (c # cs) =
     (if lo = 0 then [c # cs] else []) @
     (if p c \<and> hi \<noteq> Some 0
      then consume p (lo - 1) (map_option (\<lambda>h. h - 1) hi) cs else [])"

text \<open>
  At the end of the pattern stands \<^verbatim>\<open>$\<close>, which without \<^verbatim>\<open>re.MULTILINE\<close> matches at
  the end of the string and just before a newline that ends the string.
\<close>

fun match_items :: "pattern \<Rightarrow> string \<Rightarrow> bool" where
  "match_items [] s = (s = [] \<or> s = [CHR 0x0A])"
| "match_items ((p, lo, hi) # ps) s = list_ex (match_items ps) (consume p lo hi s)"

definition re_match :: "pattern \<Rightarrow> string \<Rightarrow> bool" where
  "re_match pat s = match_items pat s"

section \<open>Validators of \<^verbatim>\<open>form_validation.py\<close>\<close>

text \<open>\<^verbatim>\<open>^[A-Za-z\s-]+$\<close>\<close>

definition name_re_A :: pattern where
  "name_re_A = [plus1 (\<lambda>c. upper c \<or> lower c \<or> space c \<or> c = CHR ''-'')]"

definition validate_name_A :: "string \<Rightarrow> string \<Rightarrow> bool \<times> string" where
  "validate_name_A name field_name =
     (if name = [] then (False, field_name @ '' is required'')
      else if \<not> re_match name_re_A name then
        (False, field_name @ '' should only contain letters, spaces, and hyphens'')
      else if length name < 2 then
        (False, field_name @ '' should be at least 2 characters long'')
      else (True, []))"

text \<open>\<^verbatim>\<open>^[a-zA-Z0-9._%+-]+@[a-zA-Z0-9.-]+\.[a-zA-Z]{2,}$\<close>, the same in both files.\<close>

definition email_re :: pattern where
  "email_re =
     [plus1 (\<lambda>c. lower c \<or> upper c \<or> digit c \<or> c \<in> set ''._%+-''),
      one (\<lambda>c. c = CHR ''@''),
      plus1 (\<lambda>c. lower c \<or> upper c \<or> digit c \<or> c \<in> set ''.-''),
      one (\<lambda>c. c = CHR ''.''),
      rep_from (\<lambda>c. lower c \<or> upper c) 2]"

definition validate_email_A :: "string \<Rightarrow> bool \<times> string" where
  "validate_email_A email =
     (if \<not> re_match email_re email then (False, ''Please enter a valid email address'')
      else (True, []))"

text \<open>\<^verbatim>\<open>^\(?([0-9]{3})\)?[-. ]?([0-9]{3})[-. ]?([0-9]{4})$\<close>\<close>

definition phone_re_A :: pattern where
  "phone_re_A =
     [opt (\<lambda>c. c = CHR ''(''),
      rep digit 3,
      opt (\<lambda>c. c = CHR '')''),
      opt (\<lambda>c. c \<in> set ''-. ''),
      rep digit 3,
      opt (\<lambda>c. c \<in> set ''-. ''),
      rep digit 4]"

definition validate_phone_A :: "string \<Rightarrow> bool \<times> string" where
  "validate_phone_A phone =
     (if \<not> re_match phone_re_A phone then (False, ''Please enter a valid phone number'')
      else (True, []))"

subsection \<open>\<^verbatim>\<open>int(age)\<close>\<close>

text \<open>
  \<^verbatim>\<open>int\<close> of an integer is the integer. \<^verbatim>\<open>int\<close> of a string skips white space at
  both ends, reads a sign and then decimal digits, where one underscore may stand
  between two digits; anything else raises \<^verbatim>\<open>ValueError\<close>, and so does a string
  with more digits than the interpreter's limit, 4300 unless it is configured
  otherwise (leading zeros count, underscores do not).

  The white space that \<^verbatim>\<open>int\<close> skips is narrower than \<^verbatim>\<open>\s\<close>: a code point below 127
  is kept as it is and skipped only if C's \<^verbatim>\<open>isspace\<close> holds (9 to 13 and 32), so
  that the separators 28 to 31 are not skipped; above, the two white space code
  points 133 and 160 are.
\<close>

definition int_space :: "char \<Rightarrow> bool" where
  "int_space c = (let n = of_char c :: nat in
     (9 \<le> n \<and> n \<le> 13) \<or> n = 32 \<or> n = 133 \<or> n = 160)"

definition MAX_STR_DIGITS :: nat where
  "MAX_STR_DIGITS = 4300"

definition digit_val :: "char \<Rightarrow> int" where
  "digit_val c = int (of_char c) - 48"

fun parse_digits :: "int \<Rightarrow> string \<Rightarrow> int option" where
  "parse_digits acc [] = Some acc"
| "parse_digits acc [c] = (if digit c then Some (10 * acc + digit_val c) else None)"
| "parse_digits acc (c # d # ds) =
     (if digit c then parse_digits (10 * acc + digit_val c) (d # ds)
      else if c = CHR ''_'' \<and> digit d then parse_digits (10 * acc + digit_val d) ds
      else None)"

definition parse_nat :: "string \<Rightarrow> int option" where
  "parse_nat s =
     (case s of
        [] \<Rightarrow> None
      | c # cs \<Rightarrow>
          if digit c \<and> length (filter digit s) \<le> MAX_STR_DIGITS
          then parse_digits (digit_val c) cs else None)"

definition strip :: "string \<Rightarrow> string" where
  "strip s = rev (dropWhile int_space (rev (dropWhile int_space s)))"

definition int_of_str :: "string \<Rightarrow> int option" where
  "int_of_str s =
     (case strip s of
        [] \<Rightarrow> None
      | c # cs \<Rightarrow>
          if c = CHR ''-'' then map_option uminus (parse_nat cs)
          else if c = CHR ''+'' then parse_nat cs
          else parse_nat (c # cs))"

fun py_int :: "pyval \<Rightarrow> pyerr + int" where
  "py_int (PInt n) = Inr n"
| "py_int (PStr s) = (case int_of_str s of None \<Rightarrow> Inl ValueError | Some n \<Rightarrow> Inr n)"

text \<open>The \<^verbatim>\<open>try\<close> block catches \<^verbatim>\<open>ValueError\<close> and nothing else.\<close>

definition validate_age_A :: "pyval \<Rightarrow> pyerr + (bool \<times> string)" where
  "validate_age_A age =
     (case py_int age of
        Inr n \<Rightarrow>
          if n < 0 \<or> n > 120 then Inr (False, ''Age must be between 0 and 120'')
          else Inr (True, [])
      | Inl ValueError \<Rightarrow> Inr (False, ''Please enter a valid number'')
      | Inl e \<Rightarrow> Inl e)"

subsection \<open>Dates\<close>

text \<open>
  A \<^verbatim>\<open>datetime.date\<close> is represented by its proleptic Gregorian ordinal
  (\<^verbatim>\<open>date.toordinal()\<close>: 1 is 0001-01-01): dates compare as their ordinals do, and
  adding a \<^verbatim>\<open>timedelta\<close> of whole days adds to the ordinal. The calendar functions
  follow the ones of the same names in Python's \<^verbatim>\<open>datetime\<close> module; they give the
  date constants and \<^verbatim>\<open>strftime\<close>. \<^verbatim>\<open>date.today()\<close> is the parameter \<open>today\<close> of
  every function that reads the clock.
\<close>

type_synonym date = int

definition is_leap :: "int \<Rightarrow> bool" where
  "is_leap year = (year mod 4 = 0 \<and> (if year mod 100 = 0 then year mod 400 = 0 else True))"

definition days_before_year :: "int \<Rightarrow> int" where
  "days_before_year year =
     (let y = year - 1 in y * 365 + y div 4 - y div 100 + y div 400)"

definition DAYS_IN_MONTH :: "int list" where
  "DAYS_IN_MONTH = [0, 31, 28, 31, 30, 31, 30, 31, 31, 30, 31, 30, 31]"

definition DAYS_BEFORE_MONTH :: "int list" where
  "DAYS_BEFORE_MONTH = [0, 0, 31, 59, 90, 120, 151, 181, 212, 243, 273, 304, 334]"

definition days_before_month :: "int \<Rightarrow> int \<Rightarrow> int" where
  "days_before_month year month =
     DAYS_BEFORE_MONTH ! nat month + (if month > 2 \<and> is_leap year then 1 else 0)"

definition ymd2ord :: "int \<Rightarrow> int \<Rightarrow> int \<Rightarrow> date" where
  "ymd2ord year month day = days_before_year year + days_before_month year month + day"

definition ord2ymd :: "date \<Rightarrow> int \<times> int \<times> int" where
  "ord2ymd ordinal =
     (let n = ordinal - 1;
          n400 = n div 146097; n = n mod 146097;
          n100 = n div 36524; n = n mod 36524;
          n4 = n div 1461; n = n mod 1461;
          n1 = n div 365; n = n mod 365;
          year = n400 * 400 + 1 + n100 * 100 + n4 * 4 + n1
      in if n1 = 4 \<or> n100 = 4 then (year - 1, 12, 31)
         else
           let leapyear = (n1 = 3 \<and> (n100 = 3 \<or> n4 \<noteq> 24));
               month = (n + 50) div 32;
               preceding = DAYS_BEFORE_MONTH ! nat month
                 + (if month > 2 \<and> leapyear then 1 else 0)
           in if preceding > n then
                let month1 = month - 1;
                    preceding1 = preceding - (DAYS_IN_MONTH ! nat month1
                      + (if month1 = 2 \<and> leapyear then 1 else 0))
                in (year, month1, n - preceding1 + 1)
              else (year, month, n - preceding + 1))"

definition MAXORDINAL :: int where
  "MAXORDINAL = 3652059"

text \<open>\<^verbatim>\<open>date + timedelta(days=k)\<close> raises \<^verbatim>\<open>OverflowError\<close> outside years 1 to 9999.\<close>

definition date_add :: "date \<Rightarrow> int \<Rightarrow> pyerr + date" where
  "date_add d days =
     (let ordinal = d + days
      in if 0 < ordinal \<and> ordinal \<le> MAXORDINAL then Inr ordinal else Inl OverflowError)"

definition digit_char :: "int \<Rightarrow> char" where
  "digit_char d = ''0123456789'' ! nat (d mod 10)"

definition pad2 :: "int \<Rightarrow> string" where
  "pad2 n = [digit_char (n div 10), digit_char n]"

definition pad4 :: "int \<Rightarrow> string" where
  "pad4 n = [digit_char (n div 1000), digit_char (n div 100), digit_char (n div 10), digit_char n]"

text \<open>\<^verbatim>\<open>d.strftime('%Y-%m-%d')\<close>\<close>

definition strftime_ymd :: "date \<Rightarrow> string" where
  "strftime_ymd d =
     (case ord2ymd d of (year, month, day) \<Rightarrow> pad4 year @ ''-'' @ pad2 month @ ''-'' @ pad2 day)"

text \<open>
  \<^verbatim>\<open>validate_date(input_date, earliest_date=date(1990, 1, 1))\<close>; \<open>date_1990_01_01\<close> is
  the default of the second parameter.
\<close>

definition date_1990_01_01 :: date where
  "date_1990_01_01 = ymd2ord 1990 1 1"

definition validate_date_A :: "date \<Rightarrow> date \<Rightarrow> date \<Rightarrow> pyerr + (bool \<times> string)" where
  "validate_date_A today input_date earliest_date =
     (case date_add today (5 * 365) of
        Inl e \<Rightarrow> Inl e
      | Inr max_future_date \<Rightarrow>
          if input_date < earliest_date then
            Inr (False, ''Date must be after '' @ strftime_ymd earliest_date)
          else if input_date > max_future_date then
            Inr (False, ''Date cannot be more than 5 years in the future'')
          else Inr (True, []))"

section \<open>Validators of \<^verbatim>\<open>form_validation2.py\<close>\<close>

text \<open>\<^verbatim>\<open>^[a-zA-Z'\s\-]{2,50}$\<close>\<close>

definition name_re_B :: pattern where
  "name_re_B =
     [rep_between (\<lambda>c. lower c \<or> upper c \<or> c = CHR 0x27 \<or> space c \<or> c = CHR ''-'') 2 50]"

definition validate_name_B :: "string \<Rightarrow> string \<Rightarrow> bool \<times> string" where
  "validate_name_B name field_name =
     (if name = [] then (False, field_name @ '' is required'')
      else if \<not> re_match name_re_B name then
        (False, field_name @
          '' must contain only letters, spaces, hyphens, or apostrophes (2-50 characters)'')
      else (True, []))"

definition validate_email_B :: "string \<Rightarrow> bool \<times> string" where
  "validate_email_B email =
     (if email = [] then (False, ''Email is required'')
      else if \<not> re_match email_re email then (False, ''Invalid email format'')
      else (True, []))"

text \<open>\<^verbatim>\<open>re.sub(r'[\s\-\(\)]', '', phone)\<close>, then \<^verbatim>\<open>^[0-9]{10}$\<close>\<close>

definition clean_phone :: "string \<Rightarrow> string" where
  "clean_phone phone = filter (\<lambda>c. \<not> (space c \<or> c \<in> set ''-()'')) phone"

definition phone_re_B :: pattern where
  "phone_re_B = [rep digit 10]"

definition validate_phone_B :: "string \<Rightarrow> bool \<times> string" where
  "validate_phone_B phone =
     (if phone = [] then (False, ''Phone number is required'')
      else if \<not> re_match phone_re_B (clean_phone phone) then (False, ''Phone must be 10 digits'')
      else (True, []))"

text \<open>
  \<^verbatim>\<open>validate_age\<close> of this file compares its argument with numbers at once; on a
  string the first comparison, \<^verbatim>\<open>age <= 0\<close>, raises \<^verbatim>\<open>TypeError\<close>.
\<close>

fun validate_age_B :: "pyval \<Rightarrow> pyerr + (bool \<times> string)" where
  "validate_age_B (PInt age) =
     (if age \<le> 0 then Inr (False, ''Age must be greater than 0'')
      else if age > 120 then Inr (False, ''Age must be less than 120'')
      else Inr (True, []))"
| "validate_age_B (PStr age) = Inl TypeError"

text \<open>\<open>None\<close> is Python's \<^verbatim>\<open>None\<close>, the one date value that is not true.\<close>

definition validate_date_B :: "date \<Rightarrow> date option \<Rightarrow> bool \<times> string" where
  "validate_date_B today check_date =
     (case check_date of
        None \<Rightarrow> (False, ''Date is required'')
      | Some d \<Rightarrow>
          if d > today then (False, ''Date cannot be in the future'')
          else (True, []))"

section \<open>The form of \<^verbatim>\<open>form_validation.py\<close>\<close>

text \<open>
  What the widgets of one script run return: four text inputs, a number input and
  three date inputs. A date input that starts from a date always returns a date.
\<close>

record widgets =
  w_first_name :: string
  w_last_name :: string
  w_email :: string
  w_phone :: string
  w_age :: int
  w_birth_date :: date
  w_start_date :: date
  w_end_date :: date

text \<open>
  \<^verbatim>\<open>st.session_state.form_data\<close>: a dictionary created with all nine keys before
  anything reads it. \<^verbatim>\<open>'age'\<close> holds the empty string until a submission stores the
  number.
\<close>

record form_data =
  fd_first_name :: string
  fd_last_name :: string
  fd_email :: string
  fd_phone :: string
  fd_age :: pyval
  fd_birth_date :: date
  fd_start_date :: date
  fd_end_date :: date
  fd_submitted :: bool

text \<open>The list \<^verbatim>\<open>validations\<close> that the submit branch builds, in its order.\<close>

definition validations_A :: "date \<Rightarrow> widgets \<Rightarrow> pyerr + (bool \<times> string) list" where
  "validations_A today w =
     (case validate_age_A (PInt (w_age w)) of
        Inl e \<Rightarrow> Inl e
      | Inr age_result \<Rightarrow>
          (case validate_date_A today (w_birth_date w) date_1990_01_01 of
             Inl e \<Rightarrow> Inl e
           | Inr date_result \<Rightarrow>
               Inr [validate_name_A (w_first_name w) ''First name'',
                    validate_name_A (w_last_name w) ''Last name'',
                    validate_email_A (w_email w),
                    validate_phone_A (w_phone w),
                    age_result,
                    date_result,
                    (w_start_date w < w_end_date w, ''Start date must be before end date'')]))"

text \<open>\<^verbatim>\<open>all(v[0] for v in validations)\<close>\<close>

definition all_valid_A :: "(bool \<times> string) list \<Rightarrow> bool" where
  "all_valid_A validations = list_all fst validations"

text \<open>The messages the \<^verbatim>\<open>else\<close> branch shows: those of the entries that are not valid.\<close>

definition error_messages_A :: "(bool \<times> string) list \<Rightarrow> string list" where
  "error_messages_A validations = map snd (filter (\<lambda>v. \<not> fst v) validations)"

text \<open>
  The submit branch returns whether the form was submitted, the error messages it
  shows and the dictionary it leaves.
\<close>

definition submit_A :: "date \<Rightarrow> widgets \<Rightarrow> form_data \<Rightarrow> pyerr + (bool \<times> string list \<times> form_data)" where
  "submit_A today w fd =
     (case validations_A today w of
        Inl e \<Rightarrow> Inl e
      | Inr validations \<Rightarrow>
          if all_valid_A validations then
            Inr (True, [],
              fd\<lparr>fd_first_name := w_first_name w,
                 fd_last_name := w_last_name w,
                 fd_email := w_email w,
                 fd_phone := w_phone w,
                 fd_age := PInt (w_age w),
                 fd_birth_date := w_birth_date w,
                 fd_start_date := w_start_date w,
                 fd_end_date := w_end_date w,
                 fd_submitted := True\<rparr>)
          else Inr (False, error_messages_A validations, fd))"

text \<open>The loop over the keys that the Clear Form button runs.\<close>

definition clear_A :: "date \<Rightarrow> form_data \<Rightarrow> form_data" where
  "clear_A today fd =
     fd\<lparr>fd_first_name := [],
        fd_last_name := [],
        fd_email := [],
        fd_phone := [],
        fd_age := PStr [],
        fd_birth_date := today,
        fd_start_date := today,
        fd_end_date := today,
        fd_submitted := False\<rparr>"

section \<open>The form of \<^verbatim>\<open>form_validation2.py\<close>\<close>

text \<open>
  \<^verbatim>\<open>st.session_state\<close>: a key that is absent is \<open>None\<close>, and so is a date key that
  holds \<^verbatim>\<open>None\<close> (the code reads both with \<^verbatim>\<open>get\<close> and tests the result for truth).
\<close>

record session =
  ss_first_name :: "string option"
  ss_last_name :: "string option"
  ss_email :: "string option"
  ss_phone :: "string option"
  ss_age :: "int option"
  ss_birth_date :: "date option"
  ss_start_date :: "date option"
  ss_end_date :: "date option"
  ss_first_name_valid :: "bool option"
  ss_last_name_valid :: "bool option"
  ss_email_valid :: "bool option"
  ss_phone_valid :: "bool option"
  ss_age_valid :: "bool option"
  ss_birth_date_valid :: "bool option"
  ss_start_date_valid :: "bool option"
  ss_end_date_valid :: "bool option"
  ss_form_submitted :: "bool option"
  ss_validation_messages :: "string list option"

text \<open>\<^verbatim>\<open>st.session_state.get(key, default)\<close>\<close>

definition get_or :: "'a option \<Rightarrow> 'a \<Rightarrow> 'a" where
  "get_or v dflt = (case v of None \<Rightarrow> dflt | Some x \<Rightarrow> x)"

definition empty_session :: session where
  "empty_session =
     \<lparr>ss_first_name = None, ss_last_name = None, ss_email = None, ss_phone = None,
      ss_age = None, ss_birth_date = None, ss_start_date = None, ss_end_date = None,
      ss_first_name_valid = None, ss_last_name_valid = None, ss_email_valid = None,
      ss_phone_valid = None, ss_age_valid = None, ss_birth_date_valid = None,
      ss_start_date_valid = None, ss_end_date_valid = None,
      ss_form_submitted = None, ss_validation_messages = None\<rparr>"

subsection \<open>\<^verbatim>\<open>get_validation_status\<close>\<close>

definition first_name_status :: "session \<Rightarrow> string list" where
  "first_name_status s =
     (if \<not> get_or (ss_first_name_valid s) False then
        (if get_or (ss_first_name s) [] \<noteq> [] then
           (case validate_name_B (get_or (ss_first_name s) []) ''First name'' of
              (is_valid, message) \<Rightarrow> if \<not> is_valid then [message] else [])
         else [''First name is required''])
      else [])"

definition last_name_status :: "session \<Rightarrow> string list" where
  "last_name_status s =
     (if \<not> get_or (ss_last_name_valid s) False then
        (if get_or (ss_last_name s) [] \<noteq> [] then
           (case validate_name_B (get_or (ss_last_name s) []) ''Last name'' of
              (is_valid, message) \<Rightarrow> if \<not> is_valid then [message] else [])
         else [''Last name is required''])
      else [])"

definition email_status :: "session \<Rightarrow> string list" where
  "email_status s =
     (if \<not> get_or (ss_email_valid s) False then
        (if get_or (ss_email s) [] \<noteq> [] then
           (case validate_email_B (get_or (ss_email s) []) of
              (is_valid, message) \<Rightarrow> if \<not> is_valid then [message] else [])
         else [''Email is required''])
      else [])"

definition phone_status :: "session \<Rightarrow> string list" where
  "phone_status s =
     (if \<not> get_or (ss_phone_valid s) False then
        (if get_or (ss_phone s) [] \<noteq> [] then
           (case validate_phone_B (get_or (ss_phone s) []) of
              (is_valid, message) \<Rightarrow> if \<not> is_valid then [message] else [])
         else [''Phone number is required''])
      else [])"

definition age_status :: "session \<Rightarrow> pyerr + string list" where
  "age_status s =
     (if \<not> get_or (ss_age_valid s) False then
        (if get_or (ss_age s) 0 > 0 then
           (case validate_age_B (PInt (get_or (ss_age s) 0)) of
              Inl e \<Rightarrow> Inl e
            | Inr (is_valid, message) \<Rightarrow> Inr (if \<not> is_valid then [message] else []))
         else Inr [''Age is required''])
      else Inr [])"

definition birth_date_status :: "date \<Rightarrow> session \<Rightarrow> string list" where
  "birth_date_status today s =
     (if \<not> get_or (ss_birth_date_valid s) False then
        (if ss_birth_date s \<noteq> None then
           (case validate_date_B today (ss_birth_date s) of
              (is_valid, message) \<Rightarrow> if \<not> is_valid then [message] else [])
         else [''Birth date is required''])
      else [])"

definition date_range_status :: "session \<Rightarrow> string list" where
  "date_range_status s =
     (case (ss_start_date s, ss_end_date s) of
        (Some start_date, Some end_date) \<Rightarrow>
          if start_date \<ge> end_date then [''Start date must be before end date''] else []
      | _ \<Rightarrow> [])"

text \<open>
  The function appends to \<^verbatim>\<open>validation_messages\<close> block by block and returns the
  list; it assigns to nothing else.
\<close>

definition get_validation_status :: "date \<Rightarrow> session \<Rightarrow> pyerr + string list" where
  "get_validation_status today s =
     (case age_status s of
        Inl e \<Rightarrow> Inl e
      | Inr age_messages \<Rightarrow>
          Inr (first_name_status s @ last_name_status s @ email_status s @ phone_status s
               @ age_messages @ birth_date_status today s @ date_range_status s))"

subsection \<open>\<^verbatim>\<open>main\<close>\<close>

text \<open>The two initialisations at the head of \<^verbatim>\<open>main\<close>.\<close>

definition init_B :: "session \<Rightarrow> session" where
  "init_B s =
     (let s1 = (if ss_form_submitted s = None then s\<lparr>ss_form_submitted := Some False\<rparr> else s)
      in if ss_validation_messages s1 = None then s1\<lparr>ss_validation_messages := Some []\<rparr>
         else s1)"

definition age_valid_B :: "int \<Rightarrow> pyerr + bool" where
  "age_valid_B age =
     (if age > 0 then
        (case validate_age_B (PInt age) of
           Inl e \<Rightarrow> Inl e
         | Inr (is_valid, message) \<Rightarrow> Inr is_valid)
      else Inr False)"

text \<open>
  The widgets of the form column: each stores its value under its key, and the code
  after it stores the verdict of the validator, or \<^verbatim>\<open>False\<close> for an empty value.
\<close>

definition render_B :: "date \<Rightarrow> widgets \<Rightarrow> session \<Rightarrow> pyerr + session" where
  "render_B today w s =
     (case age_valid_B (w_age w) of
        Inl e \<Rightarrow> Inl e
      | Inr age_ok \<Rightarrow>
          Inr (s\<lparr>ss_first_name := Some (w_first_name w),
                 ss_first_name_valid := Some (if w_first_name w \<noteq> []
                   then fst (validate_name_B (w_first_name w) ''First name'') else False),
                 ss_last_name := Some (w_last_name w),
                 ss_last_name_valid := Some (if w_last_name w \<noteq> []
                   then fst (validate_name_B (w_last_name w) ''Last name'') else False),
                 ss_email := Some (w_email w),
                 ss_email_valid := Some (if w_email w \<noteq> []
                   then fst (validate_email_B (w_email w)) else False),
                 ss_phone := Some (w_phone w),
                 ss_phone_valid := Some (if w_phone w \<noteq> []
                   then fst (validate_phone_B (w_phone w)) else False),
                 ss_age := Some (w_age w),
                 ss_age_valid := Some age_ok,
                 ss_birth_date := Some (w_birth_date w),
                 ss_birth_date_valid := Some (fst (validate_date_B today (Some (w_birth_date w)))),
                 ss_start_date := Some (w_start_date w),
                 ss_end_date := Some (w_end_date w),
                 ss_start_date_valid := Some (\<not> w_start_date w \<ge> w_end_date w),
                 ss_end_date_valid := Some (\<not> w_start_date w \<ge> w_end_date w)\<rparr>))"

text \<open>
  The Submit button: whether the form was submitted, the messages shown and the
  session state left.
\<close>

definition submit_B :: "date \<Rightarrow> session \<Rightarrow> pyerr + (bool \<times> string list \<times> session)" where
  "submit_B today s =
     (case get_validation_status today s of
        Inl e \<Rightarrow> Inl e
      | Inr validation_messages \<Rightarrow>
          if validation_messages = [] then Inr (True, [], s\<lparr>ss_form_submitted := Some True\<rparr>)
          else Inr (False, validation_messages, s))"

text \<open>A script run in which Submit was pressed, up to the end of the button's branch.\<close>

definition on_submit_B :: "date \<Rightarrow> widgets \<Rightarrow> session \<Rightarrow> pyerr + (bool \<times> string list \<times> session)" where
  "on_submit_B today w s =
     (case render_B today w (init_B s) of
        Inl e \<Rightarrow> Inl e
      | Inr s1 \<Rightarrow> submit_B today s1)"


text \<open>The Clear Form button of the sidebar deletes every key.\<close>

definition clear_B :: "session \<Rightarrow> session" where
  "clear_B s = empty_session"

text \<open>The dictionary \<^verbatim>\<open>current_data\<close> of \<^verbatim>\<open>update_sidebar_table\<close>.\<close>

definition current_data :: "date \<Rightarrow> session \<Rightarrow> widgets" where
  "current_data today s =
     \<lparr>w_first_name = get_or (ss_first_name s) [],
      w_last_name = get_or (ss_last_name s) [],
      w_email = get_or (ss_email s) [],
      w_phone = get_or (ss_phone s) [],
      w_age = get_or (ss_age s) 0,
      w_birth_date = get_or (ss_birth_date s) today,
      w_start_date = get_or (ss_start_date s) today,
      w_end_date = get_or (ss_end_date s) today\<rparr>"

subsection \<open>\<^verbatim>\<open>get_validation_status\<close> with its effects\<close>

text \<open>
  What a statement of the second file can touch while it runs: the session state and
  the clock that \<^verbatim>\<open>date.today()\<close> reads. A computation takes this runtime state and
  returns its result, or the exception it raises, with the runtime state it leaves.
\<close>

record runtime =
  rt_session :: session
  rt_today :: date

type_synonym 'a py = "runtime \<Rightarrow> (pyerr + 'a) \<times> runtime"

definition py_return :: "'a \<Rightarrow> 'a py" where
  "py_return x = (\<lambda>rt. (Inr x, rt))"

definition py_bind :: "'a py \<Rightarrow> ('a \<Rightarrow> 'b py) \<Rightarrow> 'b py" where
  "py_bind p f =
     (\<lambda>rt. case p rt of
        (Inl e, rt1) \<Rightarrow> (Inl e, rt1)
      | (Inr x, rt1) \<Rightarrow> f x rt1)"

text \<open>\<^verbatim>\<open>st.session_state.get(key, default)\<close>\<close>

definition session_get :: "(session \<Rightarrow> 'a option) \<Rightarrow> 'a \<Rightarrow> 'a py" where
  "session_get key dflt = (\<lambda>rt. (Inr (get_or (key (rt_session rt)) dflt), rt))"

text \<open>\<^verbatim>\<open>st.session_state.get(key)\<close>, which gives \<^verbatim>\<open>None\<close> for an absent key.\<close>

definition session_get_none :: "(session \<Rightarrow> 'a option) \<Rightarrow> 'a option py" where
  "session_get_none key = (\<lambda>rt. (Inr (key (rt_session rt)), rt))"

text \<open>\<^verbatim>\<open>st.session_state.key\<close>, which raises when the key is absent.\<close>

definition session_attr :: "(session \<Rightarrow> 'a option) \<Rightarrow> 'a py" where
  "session_attr key =
     (\<lambda>rt. case key (rt_session rt) of
        None \<Rightarrow> (Inl AttributeError, rt)
      | Some v \<Rightarrow> (Inr v, rt))"

text \<open>\<^verbatim>\<open>st.session_state.form_submitted = v\<close>, the assignment of the Submit branch.\<close>

definition session_set_form_submitted :: "bool \<Rightarrow> unit py" where
  "session_set_form_submitted v =
     (\<lambda>rt. (Inr (), rt\<lparr>rt_session := (rt_session rt)\<lparr>ss_form_submitted := Some v\<rparr>\<rparr>))"

text \<open>\<^verbatim>\<open>date.today()\<close>\<close>

definition date_today :: "date py" where
  "date_today = (\<lambda>rt. (Inr (rt_today rt), rt))"

text \<open>A call of a function that can raise and touches nothing.\<close>

definition py_lift :: "pyerr + 'a \<Rightarrow> 'a py" where
  "py_lift r = (\<lambda>rt. (r, rt))"

text \<open>\<^verbatim>\<open>validate_date\<close> of the second file, reading the clock where the code does.\<close>

definition validate_date_rt :: "date option \<Rightarrow> (bool \<times> string) py" where
  "validate_date_rt check_date =
     (case check_date of
        None \<Rightarrow> py_return (False, ''Date is required'')
      | Some d \<Rightarrow>
          py_bind date_today (\<lambda>today.
            if d > today then py_return (False, ''Date cannot be in the future'')
            else py_return (True, [])))"

text \<open>
  The six blocks and the range check of \<^verbatim>\<open>get_validation_status\<close>, statement by
  statement; each takes the local list \<^verbatim>\<open>validation_messages\<close> and returns it with
  what the block appends.
\<close>

definition first_name_block :: "string list \<Rightarrow> string list py" where
  "first_name_block validation_messages =
     py_bind (session_get ss_first_name_valid False) (\<lambda>valid.
       if \<not> valid then
         py_bind (session_get ss_first_name []) (\<lambda>v.
           if v \<noteq> [] then
             py_bind (session_attr ss_first_name) (\<lambda>first_name.
               case validate_name_B first_name ''First name'' of
                 (is_valid, message) \<Rightarrow>
                   py_return (if \<not> is_valid then validation_messages @ [message]
                              else validation_messages))
           else py_return (validation_messages @ [''First name is required'']))
       else py_return validation_messages)"

definition last_name_block :: "string list \<Rightarrow> string list py" where
  "last_name_block validation_messages =
     py_bind (session_get ss_last_name_valid False) (\<lambda>valid.
       if \<not> valid then
         py_bind (session_get ss_last_name []) (\<lambda>v.
           if v \<noteq> [] then
             py_bind (session_attr ss_last_name) (\<lambda>last_name.
               case validate_name_B last_name ''Last name'' of
                 (is_valid, message) \<Rightarrow>
                   py_return (if \<not> is_valid then validation_messages @ [message]
                              else validation_messages))
           else py_return (validation_messages @ [''Last name is required'']))
       else py_return validation_messages)"

definition email_block :: "string list \<Rightarrow> string list py" where
  "email_block validation_messages =
     py_bind (session_get ss_email_valid False) (\<lambda>valid.
       if \<not> valid then
         py_bind (session_get ss_email []) (\<lambda>v.
           if v \<noteq> [] then
             py_bind (session_attr ss_email) (\<lambda>email.
               case validate_email_B email of
                 (is_valid, message) \<Rightarrow>
                   py_return (if \<not> is_valid then validation_messages @ [message]
                              else validation_messages))
           else py_return (validation_messages @ [''Email is required'']))
       else py_return validation_messages)"

definition phone_block :: "string list \<Rightarrow> string list py" where
  "phone_block validation_messages =
     py_bind (session_get ss_phone_valid False) (\<lambda>valid.
       if \<not> valid then
         py_bind (session_get ss_phone []) (\<lambda>v.
           if v \<noteq> [] then
             py_bind (session_attr ss_phone) (\<lambda>phone.
               case validate_phone_B phone of
                 (is_valid, message) \<Rightarrow>
                   py_return (if \<not> is_valid then validation_messages @ [message]
                              else validation_messages))
           else py_return (validation_messages @ [''Phone number is required'']))
       else py_return validation_messages)"

definition age_block :: "string list \<Rightarrow> string list py" where
  "age_block validation_messages =
     py_bind (session_get ss_age_valid False) (\<lambda>valid.
       if \<not> valid then
         py_bind (session_get ss_age 0) (\<lambda>v.
           if v > 0 then
             py_bind (session_attr ss_age) (\<lambda>age.
               py_bind (py_lift (validate_age_B (PInt age))) (\<lambda>(is_valid, message).
                 py_return (if \<not> is_valid then validation_messages @ [message]
                            else validation_messages)))
           else py_return (validation_messages @ [''Age is required'']))
       else py_return validation_messages)"

definition birth_date_block :: "string list \<Rightarrow> string list py" where
  "birth_date_block validation_messages =
     py_bind (session_get ss_birth_date_valid False) (\<lambda>valid.
       if \<not> valid then
         py_bind (session_get_none ss_birth_date) (\<lambda>v.
           if v \<noteq> None then
             py_bind (session_attr ss_birth_date) (\<lambda>birth_date.
               py_bind (validate_date_rt (Some birth_date)) (\<lambda>(is_valid, message).
                 py_return (if \<not> is_valid then validation_messages @ [message]
                            else validation_messages)))
           else py_return (validation_messages @ [''Birth date is required'']))
       else py_return validation_messages)"

definition date_range_block :: "string list \<Rightarrow> string list py" where
  "date_range_block validation_messages =
     py_bind (session_get_none ss_start_date) (\<lambda>start_date.
       py_bind (session_get_none ss_end_date) (\<lambda>end_date.
         case (start_date, end_date) of
           (Some a, Some b) \<Rightarrow>
             py_return (if a \<ge> b
                        then validation_messages @ [''Start date must be before end date'']
                        else validation_messages)
         | _ \<Rightarrow> py_return validation_messages))"

definition get_validation_status_rt :: "string list py" where
  "get_validation_status_rt =
     py_bind (first_name_block []) (\<lambda>m1.
     py_bind (last_name_block m1) (\<lambda>m2.
     py_bind (email_block m2) (\<lambda>m3.
     py_bind (phone_block m3) (\<lambda>m4.
     py_bind (age_block m4) (\<lambda>m5.
     py_bind (birth_date_block m5) (\<lambda>m6.
     date_range_block m6))))))"

text \<open>The clock moves on by a day while nobody edits the form.\<close>

definition next_day :: "runtime \<Rightarrow> runtime" where
  "next_day rt = rt\<lparr>rt_today := rt_today rt + 1\<rparr>"

section \<open>Notions of the specification\<close>

text \<open>
  A validity record is well formed when its message is empty exactly if it is valid.
\<close>

definition verdict_ok :: "bool \<times> string \<Rightarrow> bool" where
  "verdict_ok r = (fst r = (snd r = []))"

text \<open>
  ``First violated rule wins'': a validator is a list of rules, each a condition with
  the message for its violation, and reports the first rule that does not hold.
\<close>

fun first_failure :: "(bool \<times> string) list \<Rightarrow> bool \<times> string" where
  "first_failure [] = (True, [])"
| "first_failure ((holds, message) # rules) =
     (if holds then first_failure rules else (False, message))"

text \<open>
  A string is taken to be non-numeric when it has no digit, or has a character that
  is none of digit, sign, underscore and white space.
\<close>

definition non_numeric :: "string \<Rightarrow> bool" where
  "non_numeric s =
     (list_all (\<lambda>c. \<not> digit c) s \<or>
      list_ex (\<lambda>c. \<not> (digit c \<or> space c \<or> c \<in> set ''+-_'')) s)"

text \<open>The same day and month \<open>k\<close> calendar years later.\<close>

definition add_years :: "date \<Rightarrow> int \<Rightarrow> date" where
  "add_years d k = (case ord2ymd d of (year, month, day) \<Rightarrow> ymd2ord (year + k) month day)"

text \<open>
  ``Every field passes and the date range holds'', on the values of the widgets, for
  each of the two forms.
\<close>

definition all_fields_pass_A :: "date \<Rightarrow> widgets \<Rightarrow> bool" where
  "all_fields_pass_A today w =
     (fst (validate_name_A (w_first_name w) ''First name'') \<and>
      fst (validate_name_A (w_last_name w) ''Last name'') \<and>
      fst (validate_email_A (w_email w)) \<and>
      fst (validate_phone_A (w_phone w)) \<and>
      validate_age_A (PInt (w_age w)) = Inr (True, []) \<and>
      validate_date_A today (w_birth_date w) date_1990_01_01 = Inr (True, []) \<and>
      w_start_date w < w_end_date w)"


text \<open>
  ``Every field's validity record is valid and the date range holds'', on the
  verdicts that the session state of the second form stores.
\<close>

definition is_form_valid_B :: "session \<Rightarrow> bool" where
  "is_form_valid_B s =
     (get_or (ss_first_name_valid s) False \<and>
      get_or (ss_last_name_valid s) False \<and>
      get_or (ss_email_valid s) False \<and>
      get_or (ss_phone_valid s) False \<and>
      get_or (ss_age_valid s) False \<and>
      get_or (ss_birth_date_valid s) False \<and>
      get_or (ss_start_date_valid s) False \<and>
      get_or (ss_end_date_valid s) False)"

section \<open>A scenario\<close>

text \<open>
  Concrete inputs on which the theorems below are instantiated: the day is 2024-06-01,
  the form is filled in correctly with the range 2024-01-01 to 2024-01-02, and a
  second filling has the range reversed (2024-02-01 to 2024-01-01). The dictionary of
  the first form is the one that \<^verbatim>\<open>main\<close> creates on that day.
\<close>

definition scenario_today :: date where
  "scenario_today = ymd2ord 2024 6 1"

definition scenario_widgets :: widgets where
  "scenario_widgets =
     \<lparr>w_first_name = ''Ada'', w_last_name = ''Lovelace'', w_email = ''ada@example.com'',
      w_phone = ''(555) 123-4567'', w_age = 25, w_birth_date = ymd2ord 1999 5 17,
      w_start_date = ymd2ord 2024 1 1, w_end_date = ymd2ord 2024 1 2\<rparr>"

definition reversed_widgets :: widgets where
  "reversed_widgets =
     scenario_widgets\<lparr>w_start_date := ymd2ord 2024 2 1, w_end_date := ymd2ord 2024 1 1\<rparr>"

definition scenario_form_data :: form_data where
  "scenario_form_data =
     \<lparr>fd_first_name = [], fd_last_name = [], fd_email = [], fd_phone = [], fd_age = PStr [],
      fd_birth_date = scenario_today, fd_start_date = scenario_today,
      fd_end_date = scenario_today + 1, fd_submitted = False\<rparr>"

text \<open>
  A state of the second form on that day: the stored birth date is the day after, and
  the stored verdict for it is \<^verbatim>\<open>False\<close>, as a script run of that day stores them; the
  other keys are absent.
\<close>

definition birth_tomorrow :: runtime where
  "birth_tomorrow =
     \<lparr>rt_session = empty_session\<lparr>ss_birth_date := Some (scenario_today + 1),
        ss_birth_date_valid := Some False\<rparr>,
      rt_today = scenario_today\<rparr>"

section \<open>The second form: status of a rendered state\<close>

lemma age_valid_B_eq: "age_valid_B a = Inr (validate_age_B (PInt a) = Inr (True, []))"
  by (simp add: age_valid_B_def)

lemma age_status_Inr: "\<exists>msgs. age_status s = Inr msgs"
  by (simp add: age_status_def)

lemma get_validation_status_Inr: "\<exists>msgs. get_validation_status today s = Inr msgs"
  using age_status_Inr [of s] by (auto simp: get_validation_status_def)

text \<open>
  C6. After a clear every stored value is its default and the form is not submitted,
  whatever the state before: the first form resets the dictionary (empty strings, the
  empty string for the age, today for the three dates); the second form deletes every
  key, so that each read of \<^verbatim>\<open>update_sidebar_table\<close> gives its default (empty strings,
  zero, today) and the head of \<^verbatim>\<open>main\<close> sets \<^verbatim>\<open>form_submitted\<close> to \<^verbatim>\<open>False\<close>.
\<close>

theorem clear_resets_to_defaults:
  "clear_A today fd =
     \<lparr>fd_first_name = [], fd_last_name = [], fd_email = [], fd_phone = [], fd_age = PStr [],
      fd_birth_date = today, fd_start_date = today, fd_end_date = today,
      fd_submitted = False\<rparr> \<and>
   current_data today (clear_B s) =
     \<lparr>w_first_name = [], w_last_name = [], w_email = [], w_phone = [], w_age = 0,
      w_birth_date = today, w_start_date = today, w_end_date = today\<rparr> \<and>
   get_or (ss_form_submitted (clear_B s)) False = False \<and>
   ss_form_submitted (init_B (clear_B s)) = Some False"
  by (simp add: clear_A_def clear_B_def current_data_def empty_session_def get_or_def init_B_def)


lemma first_name_status_rendered:
  "ss_first_name s = Some n \<Longrightarrow>
   ss_first_name_valid s = Some (if n \<noteq> [] then fst (validate_name_B n ''First name'') else False) \<Longrightarrow>
   (first_name_status s = []) = get_or (ss_first_name_valid s) False"
  by (auto simp: first_name_status_def get_or_def split: prod.splits)

lemma last_name_status_rendered:
  "ss_last_name s = Some n \<Longrightarrow>
   ss_last_name_valid s = Some (if n \<noteq> [] then fst (validate_name_B n ''Last name'') else False) \<Longrightarrow>
   (last_name_status s = []) = get_or (ss_last_name_valid s) False"
  by (auto simp: last_name_status_def get_or_def split: prod.splits)

lemma email_status_rendered:
  "ss_email s = Some n \<Longrightarrow>
   ss_email_valid s = Some (if n \<noteq> [] then fst (validate_email_B n) else False) \<Longrightarrow>
   (email_status s = []) = get_or (ss_email_valid s) False"
  by (auto simp: email_status_def get_or_def split: prod.splits)

lemma phone_status_rendered:
  "ss_phone s = Some n \<Longrightarrow>
   ss_phone_valid s = Some (if n \<noteq> [] then fst (validate_phone_B n) else False) \<Longrightarrow>
   (phone_status s = []) = get_or (ss_phone_valid s) False"
  by (auto simp: phone_status_def get_or_def split: prod.splits)

lemma age_status_rendered:
  "ss_age s = Some a \<Longrightarrow>
   ss_age_valid s = Some (validate_age_B (PInt a) = Inr (True, [])) \<Longrightarrow>
   \<exists>msgs. age_status s = Inr msgs \<and> (msgs = []) = get_or (ss_age_valid s) False"
  by (auto simp: age_status_def get_or_def)

lemma birth_date_status_rendered:
  "ss_birth_date s = Some d \<Longrightarrow>
   ss_birth_date_valid s = Some (fst (validate_date_B today (Some d))) \<Longrightarrow>
   (birth_date_status today s = []) = get_or (ss_birth_date_valid s) False"
  by (auto simp: birth_date_status_def get_or_def split: prod.splits)

lemma date_range_status_rendered:
  "ss_start_date s = Some a \<Longrightarrow> ss_end_date s = Some b \<Longrightarrow>
   ss_start_date_valid s = Some (\<not> a \<ge> b) \<Longrightarrow> ss_end_date_valid s = Some (\<not> a \<ge> b) \<Longrightarrow>
   (date_range_status s = []) =
     (get_or (ss_start_date_valid s) False \<and> get_or (ss_end_date_valid s) False)"
  by (auto simp: date_range_status_def get_or_def)


lemma no_range_message:
  "''Start date must be before end date'' \<notin> set (first_name_status s)"
  "''Start date must be before end date'' \<notin> set (last_name_status s)"
  "''Start date must be before end date'' \<notin> set (email_status s)"
  "''Start date must be before end date'' \<notin> set (phone_status s)"
  "age_status s = Inr am \<Longrightarrow> ''Start date must be before end date'' \<notin> set am"
  "''Start date must be before end date'' \<notin> set (birth_date_status today s)"
  by (auto simp: first_name_status_def last_name_status_def email_status_def
      phone_status_def age_status_def birth_date_status_def validate_name_B_def
      validate_email_B_def validate_phone_B_def validate_date_B_def
      split: if_splits prod.splits option.splits)

lemma render_B_fields:
  "\<exists>s1. render_B today w s = Inr s1 \<and>
     ss_first_name s1 = Some (w_first_name w) \<and>
     ss_first_name_valid s1 = Some (if w_first_name w \<noteq> []
       then fst (validate_name_B (w_first_name w) ''First name'') else False) \<and>
     ss_last_name s1 = Some (w_last_name w) \<and>
     ss_last_name_valid s1 = Some (if w_last_name w \<noteq> []
       then fst (validate_name_B (w_last_name w) ''Last name'') else False) \<and>
     ss_email s1 = Some (w_email w) \<and>
     ss_email_valid s1 = Some (if w_email w \<noteq> []
       then fst (validate_email_B (w_email w)) else False) \<and>
     ss_phone s1 = Some (w_phone w) \<and>
     ss_phone_valid s1 = Some (if w_phone w \<noteq> []
       then fst (validate_phone_B (w_phone w)) else False) \<and>
     ss_age s1 = Some (w_age w) \<and>
     ss_age_valid s1 = Some (validate_age_B (PInt (w_age w)) = Inr (True, [])) \<and>
     ss_birth_date s1 = Some (w_birth_date w) \<and>
     ss_birth_date_valid s1 = Some (fst (validate_date_B today (Some (w_birth_date w)))) \<and>
     ss_start_date s1 = Some (w_start_date w) \<and>
     ss_end_date s1 = Some (w_end_date w) \<and>
     ss_start_date_valid s1 = Some (\<not> w_start_date w \<ge> w_end_date w) \<and>
     ss_end_date_valid s1 = Some (\<not> w_start_date w \<ge> w_end_date w) \<and>
     ss_form_submitted s1 = ss_form_submitted s \<and>
     ss_validation_messages s1 = ss_validation_messages s"
  by (simp add: render_B_def age_valid_B_eq)


lemma rendered_status:
  assumes "render_B today w s = Inr s1"
  shows "\<exists>msgs. get_validation_status today s1 = Inr msgs \<and>
           (msgs = []) = is_form_valid_B s1 \<and>
           (''Start date must be before end date'' \<in> set msgs) =
             (w_start_date w \<ge> w_end_date w)"
proof -
  from render_B_fields [of today w s] assms have f:
     "ss_first_name s1 = Some (w_first_name w)"
     "ss_first_name_valid s1 = Some (if w_first_name w \<noteq> []
       then fst (validate_name_B (w_first_name w) ''First name'') else False)"
     "ss_last_name s1 = Some (w_last_name w)"
     "ss_last_name_valid s1 = Some (if w_last_name w \<noteq> []
       then fst (validate_name_B (w_last_name w) ''Last name'') else False)"
     "ss_email s1 = Some (w_email w)"
     "ss_email_valid s1 = Some (if w_email w \<noteq> []
       then fst (validate_email_B (w_email w)) else False)"
     "ss_phone s1 = Some (w_phone w)"
     "ss_phone_valid s1 = Some (if w_phone w \<noteq> []
       then fst (validate_phone_B (w_phone w)) else False)"
     "ss_age s1 = Some (w_age w)"
     "ss_age_valid s1 = Some (validate_age_B (PInt (w_age w)) = Inr (True, []))"
     "ss_birth_date s1 = Some (w_birth_date w)"
     "ss_birth_date_valid s1 = Some (fst (validate_date_B today (Some (w_birth_date w))))"
     "ss_start_date s1 = Some (w_start_date w)"
     "ss_end_date s1 = Some (w_end_date w)"
     "ss_start_date_valid s1 = Some (\<not> w_start_date w \<ge> w_end_date w)"
     "ss_end_date_valid s1 = Some (\<not> w_start_date w \<ge> w_end_date w)"
    by simp_all
  obtain am where am: "age_status s1 = Inr am" "(am = []) = get_or (ss_age_valid s1) False"
    using age_status_rendered [OF f(9) f(10)] by blast
  let ?msgs = "first_name_status s1 @ last_name_status s1 @ email_status s1 @ phone_status s1
               @ am @ birth_date_status today s1 @ date_range_status s1"
  have g: "get_validation_status today s1 = Inr ?msgs"
    by (simp add: get_validation_status_def am(1))
  have v: "(?msgs = []) = is_form_valid_B s1"
    using first_name_status_rendered [OF f(1) f(2)] last_name_status_rendered [OF f(3) f(4)]
      email_status_rendered [OF f(5) f(6)] phone_status_rendered [OF f(7) f(8)] am(2)
      birth_date_status_rendered [OF f(11) f(12)]
      date_range_status_rendered [OF f(13) f(14) f(15) f(16)]
    by (simp add: is_form_valid_B_def)
  have r: "(''Start date must be before end date'' \<in> set ?msgs) =
             (w_start_date w \<ge> w_end_date w)"
    using no_range_message(1-4,6) no_range_message(5) [OF am(1)] f(13) f(14)
    by (auto simp: date_range_status_def)
  from g v r show ?thesis by blast
qed

section \<open>Submission\<close>

lemma validate_age_A_PInt:
  "validate_age_A (PInt n) =
     Inr (if n < 0 \<or> n > 120 then (False, ''Age must be between 0 and 120'') else (True, []))"
  by (simp add: validate_age_A_def)

lemma validate_date_A_Inr:
  "date_add today (5 * 365) = Inr m \<Longrightarrow>
   validate_date_A today d e =
     Inr (if d < e then (False, ''Date must be after '' @ strftime_ymd e)
          else if d > m then (False, ''Date cannot be more than 5 years in the future'')
          else (True, []))"
  by (simp add: validate_date_A_def)

lemma strftime_1990: "strftime_ymd date_1990_01_01 = ''1990-01-01''"
  by code_simp

lemma error_messages_A_Cons:
  "error_messages_A (v # vs) = (if fst v then [] else [snd v]) @ error_messages_A vs"
  by (simp add: error_messages_A_def)

lemma error_messages_A_Nil: "error_messages_A [] = []"
  by (simp add: error_messages_A_def)

lemma all_valid_A_Cons: "all_valid_A (v # vs) = (fst v \<and> all_valid_A vs)"
  by (simp add: all_valid_A_def)

lemma all_valid_A_Nil: "all_valid_A [] = True"
  by (simp add: all_valid_A_def)

lemma no_range_message_A:
  "snd (validate_name_A n ''First name'') \<noteq> ''Start date must be before end date''"
  "snd (validate_name_A n ''Last name'') \<noteq> ''Start date must be before end date''"
  "snd (validate_email_A e) \<noteq> ''Start date must be before end date''"
  "snd (validate_phone_A p) \<noteq> ''Start date must be before end date''"
  by (simp_all add: validate_name_A_def validate_email_A_def validate_phone_A_def)


lemma validations_A_Inr:
  assumes "date_add today (5 * 365) = Inr m"
  shows "\<exists>vs. validations_A today w = Inr vs \<and>
           all_valid_A vs = all_fields_pass_A today w \<and>
           (''Start date must be before end date'' \<in> set (error_messages_A vs)) =
             (w_start_date w \<ge> w_end_date w)"
proof -
  define a where "a = (if w_age w < 0 \<or> w_age w > 120
            then (False, ''Age must be between 0 and 120'') else (True, []))"
  define d where "d = (if w_birth_date w < date_1990_01_01
            then (False, ''Date must be after '' @ strftime_ymd date_1990_01_01)
            else if w_birth_date w > m
            then (False, ''Date cannot be more than 5 years in the future'')
            else (True, []))"
  define vs where "vs = [validate_name_A (w_first_name w) ''First name'',
              validate_name_A (w_last_name w) ''Last name'',
              validate_email_A (w_email w),
              validate_phone_A (w_phone w), a, d,
              (w_start_date w < w_end_date w, ''Start date must be before end date'')]"
  have va: "validate_age_A (PInt (w_age w)) = Inr a"
    unfolding a_def by (rule validate_age_A_PInt)
  have vd: "validate_date_A today (w_birth_date w) date_1990_01_01 = Inr d"
    unfolding d_def by (rule validate_date_A_Inr [OF assms])
  have v: "validations_A today w = Inr vs"
    by (simp add: validations_A_def va vd vs_def)
  have ta: "(a = (True, [])) = fst a"
    by (simp add: a_def)
  have td: "(d = (True, [])) = fst d"
    by (simp add: d_def)
  have p: "all_valid_A vs = all_fields_pass_A today w"
    by (simp add: all_fields_pass_A_def va vd ta td vs_def all_valid_A_Cons all_valid_A_Nil)
  have na: "snd a \<noteq> ''Start date must be before end date''"
    by (simp add: a_def)
  have nd: "snd d \<noteq> ''Start date must be before end date''"
    by (simp add: d_def strftime_1990)
  have r: "(''Start date must be before end date'' \<in> set (error_messages_A vs)) =
             (w_start_date w \<ge> w_end_date w)"
    using na nd no_range_message_A [of "w_first_name w"] no_range_message_A(2) [of "w_last_name w"]
      no_range_message_A(3) [of "w_email w"] no_range_message_A(4) [of "w_phone w"]
    by (simp add: vs_def error_messages_A_Cons error_messages_A_Nil not_less)
  from v p r show ?thesis by blast
qed




text \<open>
  C4. The date-range message is among the messages exactly when the start date is not
  before the end date, whatever the other fields hold; then a submit fails and leaves
  the state as it was. The second form also stores a verdict for each of the two
  dates, and both are the outcome of the comparison.
\<close>

theorem date_range_check:
  "(date_add today (5 * 365) = Inr max_future_date \<longrightarrow>
     (\<exists>validations. validations_A today w = Inr validations \<and>
        (''Start date must be before end date'' \<in> set (error_messages_A validations)) =
          (w_start_date w \<ge> w_end_date w) \<and>
        (w_start_date w \<ge> w_end_date w \<longrightarrow>
           submit_A today w fd = Inr (False, error_messages_A validations, fd)))) \<and>
   (\<exists>s1 msgs. render_B today w (init_B s) = Inr s1 \<and>
      ss_start_date_valid s1 = Some (w_start_date w < w_end_date w) \<and>
      ss_end_date_valid s1 = Some (w_start_date w < w_end_date w) \<and>
      get_validation_status today s1 = Inr msgs \<and>
      (''Start date must be before end date'' \<in> set msgs) =
        (w_start_date w \<ge> w_end_date w) \<and>
      (w_start_date w \<ge> w_end_date w \<longrightarrow> on_submit_B today w s = Inr (False, msgs, s1)))"
proof (intro conjI impI)
  assume a: "date_add today (5 * 365) = Inr max_future_date"
  from validations_A_Inr [OF a, of w] obtain vs where
    vs: "validations_A today w = Inr vs" "all_valid_A vs = all_fields_pass_A today w"
    "(''Start date must be before end date'' \<in> set (error_messages_A vs)) =
       (w_start_date w \<ge> w_end_date w)"
    by blast
  have "w_start_date w \<ge> w_end_date w \<Longrightarrow> \<not> all_fields_pass_A today w"
    by (simp add: all_fields_pass_A_def)
  with vs show "\<exists>validations. validations_A today w = Inr validations \<and>
        (''Start date must be before end date'' \<in> set (error_messages_A validations)) =
          (w_start_date w \<ge> w_end_date w) \<and>
        (w_start_date w \<ge> w_end_date w \<longrightarrow>
           submit_A today w fd = Inr (False, error_messages_A validations, fd))"
    by (auto simp: submit_A_def)
next
  obtain s1 where s1: "render_B today w (init_B s) = Inr s1"
    "ss_start_date_valid s1 = Some (\<not> w_start_date w \<ge> w_end_date w)"
    "ss_end_date_valid s1 = Some (\<not> w_start_date w \<ge> w_end_date w)"
    using render_B_fields [of today w "init_B s"] by blast
  obtain msgs where m: "get_validation_status today s1 = Inr msgs"
    "(''Start date must be before end date'' \<in> set msgs) = (w_start_date w \<ge> w_end_date w)"
    using rendered_status [OF s1(1)] by blast
  have "w_start_date w \<ge> w_end_date w \<Longrightarrow> on_submit_B today w s = Inr (False, msgs, s1)"
    using s1(1) m by (auto simp: on_submit_B_def submit_B_def)
  with s1 m show "\<exists>s1 msgs. render_B today w (init_B s) = Inr s1 \<and>
      ss_start_date_valid s1 = Some (w_start_date w < w_end_date w) \<and>
      ss_end_date_valid s1 = Some (w_start_date w < w_end_date w) \<and>
      get_validation_status today s1 = Inr msgs \<and>
      (''Start date must be before end date'' \<in> set msgs) =
        (w_start_date w \<ge> w_end_date w) \<and>
      (w_start_date w \<ge> w_end_date w \<longrightarrow> on_submit_B today w s = Inr (False, msgs, s1))"
    by (auto simp: not_le)
qed

section \<open>Effects of \<^verbatim>\<open>get_validation_status\<close>\<close>

lemma first_name_block_eq:
  "first_name_block acc rt = (Inr (acc @ first_name_status (rt_session rt)), rt)"
  by (auto simp: first_name_block_def first_name_status_def py_bind_def py_return_def
      session_get_def session_attr_def get_or_def split: option.splits prod.splits)

lemma last_name_block_eq:
  "last_name_block acc rt = (Inr (acc @ last_name_status (rt_session rt)), rt)"
  by (auto simp: last_name_block_def last_name_status_def py_bind_def py_return_def
      session_get_def session_attr_def get_or_def split: option.splits prod.splits)

lemma email_block_eq:
  "email_block acc rt = (Inr (acc @ email_status (rt_session rt)), rt)"
  by (auto simp: email_block_def email_status_def py_bind_def py_return_def
      session_get_def session_attr_def get_or_def split: option.splits prod.splits)

lemma phone_block_eq:
  "phone_block acc rt = (Inr (acc @ phone_status (rt_session rt)), rt)"
  by (auto simp: phone_block_def phone_status_def py_bind_def py_return_def
      session_get_def session_attr_def get_or_def split: option.splits prod.splits)

lemma age_block_eq:
  "\<exists>m. age_status (rt_session rt) = Inr m \<and> age_block acc rt = (Inr (acc @ m), rt)"
  by (auto simp: age_block_def age_status_def py_bind_def py_return_def py_lift_def
      session_get_def session_attr_def get_or_def split: option.splits prod.splits)

lemma validate_date_rt_eq:
  "validate_date_rt check_date rt = (Inr (validate_date_B (rt_today rt) check_date), rt)"
  by (auto simp: validate_date_rt_def validate_date_B_def py_bind_def py_return_def
      date_today_def split: option.splits)

lemma birth_date_block_eq:
  "birth_date_block acc rt =
     (Inr (acc @ birth_date_status (rt_today rt) (rt_session rt)), rt)"
  by (auto simp: birth_date_block_def birth_date_status_def py_bind_def py_return_def
      session_get_def session_get_none_def session_attr_def get_or_def validate_date_rt_eq
      split: option.splits prod.splits)

lemma date_range_block_eq:
  "date_range_block acc rt = (Inr (acc @ date_range_status (rt_session rt)), rt)"
  by (auto simp: date_range_block_def date_range_status_def py_bind_def py_return_def
      session_get_none_def split: option.splits)

lemma get_validation_status_rt_eq:
  "get_validation_status_rt rt =
     (get_validation_status (rt_today rt) (rt_session rt), rt)"
proof -
  obtain m where m: "age_status (rt_session rt) = Inr m"
    "\<And>acc. age_block acc rt = (Inr (acc @ m), rt)"
    using age_block_eq [of rt] by (metis Pair_inject append_same_eq sum.inject(2))
  show ?thesis
    by (simp add: get_validation_status_rt_def get_validation_status_def py_bind_def
        first_name_block_eq last_name_block_eq email_block_eq phone_block_eq m
        birth_date_block_eq date_range_block_eq)
qed

text \<open>
  Not every computation leaves the runtime state as it finds it: the assignment of the
  Submit branch does not.
\<close>

lemma assignment_changes_state:
  "ss_form_submitted (rt_session rt) \<noteq> Some v \<Longrightarrow> snd (session_set_form_submitted v rt) \<noteq> rt"
  by (auto simp: session_set_form_submitted_def) (metis runtime.select_convs(1) runtime.surjective runtime.update_convs(1) session.select_convs(17) session.surjective session.update_convs(17))

text \<open>
  C9, amended. A call of \<^verbatim>\<open>get_validation_status\<close> leaves the session state and the
  clock as they were, returns a list (it does not raise, the attribute reads being
  guarded), and a second call in the state the first leaves returns the same list.
  The list is the one the blocks compute from the state and the day.
\<close>

theorem get_validation_status_reads_only:
  "snd (get_validation_status_rt rt) = rt \<and>
   fst (get_validation_status_rt (snd (get_validation_status_rt rt))) =
     fst (get_validation_status_rt rt) \<and>
   (\<exists>msgs. fst (get_validation_status_rt rt) = Inr msgs) \<and>
   fst (get_validation_status_rt rt) = get_validation_status (rt_today rt) (rt_session rt)"
  using get_validation_status_Inr [of "rt_today rt" "rt_session rt"]
  by (simp add: get_validation_status_rt_eq)

text \<open>
  C9, as stated, fails when the day changes between the two calls: the session state
  is the same, nobody has edited it, and the second call no longer reports the birth
  date as lying in the future.
\<close>

theorem get_validation_status_differs_next_day:
  "snd (get_validation_status_rt birth_tomorrow) = birth_tomorrow \<and>
   rt_session (next_day (snd (get_validation_status_rt birth_tomorrow))) =
     rt_session birth_tomorrow \<and>
   fst (get_validation_status_rt (next_day (snd (get_validation_status_rt birth_tomorrow)))) \<noteq>
     fst (get_validation_status_rt birth_tomorrow)"
  by code_simp

section \<open>Age input that is not a number\<close>

lemma parse_digits_chars:
  "parse_digits acc cs = Some n \<Longrightarrow> c \<in> set cs \<Longrightarrow> digit c \<or> c = CHR ''_''"
  by (induction acc cs rule: parse_digits.induct) (auto split: if_splits)

lemma parse_nat_chars:
  assumes "parse_nat s = Some n"
  shows "(\<exists>c \<in> set s. digit c) \<and> (\<forall>c \<in> set s. digit c \<or> c = CHR ''_'')"
proof (cases s)
  case Nil
  with assms show ?thesis by (simp add: parse_nat_def)
next
  case (Cons c cs)
  with assms have d: "digit c" and p: "parse_digits (digit_val c) cs = Some n"
    by (auto simp: parse_nat_def split: if_splits)
  from p have "\<forall>x \<in> set cs. digit x \<or> x = CHR ''_''"
    using parse_digits_chars by blast
  with d Cons show ?thesis by auto
qed

lemma set_dropWhile_cases: "c \<in> set xs \<Longrightarrow> c \<in> set (dropWhile P xs) \<or> P c"
  by (induction xs) auto

lemma strip_subset: "c \<in> set (strip s) \<Longrightarrow> c \<in> set s"
  by (auto simp: strip_def dest!: set_dropWhileD)

lemma strip_cases: "c \<in> set s \<Longrightarrow> c \<in> set (strip s) \<or> int_space c"
proof -
  assume "c \<in> set s"
  then have "c \<in> set (dropWhile int_space s) \<or> int_space c"
    by (rule set_dropWhile_cases)
  then show ?thesis
  proof
    assume "c \<in> set (dropWhile int_space s)"
    then have "c \<in> set (rev (dropWhile int_space s))" by simp
    then have "c \<in> set (dropWhile int_space (rev (dropWhile int_space s))) \<or> int_space c"
      by (rule set_dropWhile_cases)
    then show ?thesis by (auto simp: strip_def)
  qed simp
qed

lemma int_space_space: "int_space c \<Longrightarrow> space c"
  by (auto simp: int_space_def space_def Let_def)

text \<open>
  Two inputs on which \<^verbatim>\<open>int\<close> raises although their digits are fine: a separator that
  \<^verbatim>\<open>\s\<close> matches and \<^verbatim>\<open>int\<close> does not skip, and more digits than the limit.
\<close>

lemma int_of_str_separator: "int_of_str [CHR 0x1C, CHR ''7''] = None"
  by code_simp

lemma parse_nat_limit: "MAX_STR_DIGITS < length (filter digit s) \<Longrightarrow> parse_nat s = None"
  by (cases s) (auto simp: parse_nat_def)

lemma int_of_str_chars:
  assumes "int_of_str s = Some n"
  shows "(\<exists>c \<in> set s. digit c) \<and> (\<forall>c \<in> set s. digit c \<or> space c \<or> c \<in> set ''+-_'')"
proof -
  from assms obtain c cs where sc: "strip s = c # cs"
    by (auto simp: int_of_str_def split: list.splits)
  define t where "t = (if c = CHR ''-'' \<or> c = CHR ''+'' then cs else c # cs)"
  from assms sc have "\<exists>m. parse_nat t = Some m"
    by (auto simp: int_of_str_def t_def split: if_splits)
  then obtain m where t: "parse_nat t = Some m" ..
  have sub: "set t \<subseteq> set (strip s)"
    by (auto simp: t_def sc)
  have sup: "set (strip s) \<subseteq> set t \<union> set ''+-''"
    by (auto simp: t_def sc)
  from parse_nat_chars [OF t] have
    e: "\<exists>c \<in> set t. digit c" and a: "\<forall>c \<in> set t. digit c \<or> c = CHR ''_''"
    by blast+
  from e sub strip_subset have "\<exists>c \<in> set s. digit c" by blast
  moreover have "\<forall>c \<in> set s. digit c \<or> space c \<or> c \<in> set ''+-_''"
  proof
    fix c assume "c \<in> set s"
    then have "c \<in> set (strip s) \<or> int_space c" by (rule strip_cases)
    with sup a int_space_space [of c] show "digit c \<or> space c \<or> c \<in> set ''+-_''" by auto
  qed
  ultimately show ?thesis by blast
qed

lemma non_numeric_int_of_str: "non_numeric s \<Longrightarrow> int_of_str s = None"
proof (rule ccontr)
  assume n: "non_numeric s" and "int_of_str s \<noteq> None"
  then obtain m where "int_of_str s = Some m" by auto
  from int_of_str_chars [OF this] n show False
    by (auto simp: non_numeric_def list_all_iff list_ex_iff)
qed

lemma validate_age_A_PStr:
  "validate_age_A (PStr s) =
     (case int_of_str s of
        None \<Rightarrow> Inr (False, ''Please enter a valid number'')
      | Some n \<Rightarrow> Inr (if n < 0 \<or> n > 120 then (False, ''Age must be between 0 and 120'')
                     else (True, [])))"
  by (simp add: validate_age_A_def split: option.splits)

lemma non_numeric_abc: "non_numeric ''abc''"
  by code_simp

text \<open>
  C7, as stated, fails on the second file: its \<^verbatim>\<open>validate_age\<close> has no parsing step and
  raises \<^verbatim>\<open>TypeError\<close> on the non-numeric string \<^verbatim>\<open>abc\<close>.
\<close>

theorem validate_age_B_string_raises:
  "non_numeric ''abc'' \<and>
   validate_age_B (PStr ''abc'') = Inl TypeError \<and>
   validate_age_B (PStr ''abc'') \<noteq> Inr (False, ''Please enter a valid number'')"
  using non_numeric_abc by simp

text \<open>
  C7, amended. \<^verbatim>\<open>validate_age\<close> of the first file returns on every string and never
  raises; on a non-numeric string, and exactly on the strings that \<^verbatim>\<open>int\<close> does not
  parse, it returns invalid with the message \<^verbatim>\<open>Please enter a valid number\<close>.
  \<^verbatim>\<open>validate_age\<close> of the second file takes the number of the number input: on every
  integer it returns a verdict whose message is another one, and on a string it raises
  \<^verbatim>\<open>TypeError\<close>.
\<close>

theorem validate_age_non_numeric:
  "(\<exists>r. validate_age_A (PStr s) = Inr r) \<and>
   (non_numeric s \<longrightarrow> validate_age_A (PStr s) = Inr (False, ''Please enter a valid number'')) \<and>
   (validate_age_A (PStr s) = Inr (False, ''Please enter a valid number'')) =
     (int_of_str s = None) \<and>
   validate_age_B (PStr s) = Inl TypeError \<and>
   (\<exists>r. validate_age_B (PInt n) = Inr r \<and> snd r \<noteq> ''Please enter a valid number'')"
proof (intro conjI impI)
  show "\<exists>r. validate_age_A (PStr s) = Inr r"
    by (cases "int_of_str s") (auto simp: validate_age_A_PStr)
  show "validate_age_A (PStr s) = Inr (False, ''Please enter a valid number'')"
    if "non_numeric s"
    using non_numeric_int_of_str [OF that] by (simp add: validate_age_A_PStr)
  show "(validate_age_A (PStr s) = Inr (False, ''Please enter a valid number'')) =
     (int_of_str s = None)"
    by (simp add: validate_age_A_PStr split: option.splits)
  show "validate_age_B (PStr s) = Inl TypeError"
    by simp
  show "\<exists>r. validate_age_B (PInt n) = Inr r \<and> snd r \<noteq> ''Please enter a valid number''"
    by auto
qed

theorem validate_age_non_numeric_witness:
  "non_numeric ''abc'' \<and>
   validate_age_A (PStr ''abc'') = Inr (False, ''Please enter a valid number'')"
  using validate_age_non_numeric [where s = "''abc''"] non_numeric_abc by blast

section \<open>Concrete inputs\<close>

lemma scenario_date_add: "date_add scenario_today (5 * 365) = Inr 740863"
  by code_simp



lemma reversed_range: "w_start_date reversed_widgets \<ge> w_end_date reversed_widgets"
  by code_simp


theorem date_range_check_witness:
  "date_add scenario_today (5 * 365) = Inr 740863 \<and>
   w_start_date reversed_widgets \<ge> w_end_date reversed_widgets \<and>
   (\<exists>msgs. submit_A scenario_today reversed_widgets scenario_form_data =
        Inr (False, msgs, scenario_form_data) \<and>
      ''Start date must be before end date'' \<in> set msgs) \<and>
   (\<exists>s1 msgs. on_submit_B scenario_today reversed_widgets empty_session = Inr (False, msgs, s1) \<and>
      ss_start_date_valid s1 = Some False \<and> ss_end_date_valid s1 = Some False \<and>
      ''Start date must be before end date'' \<in> set msgs)"
  using date_range_check [where today = scenario_today and max_future_date = 740863
      and w = reversed_widgets and fd = scenario_form_data and s = empty_session]
    scenario_date_add reversed_range
  by auto

text \<open>
  C5. On 2024-01-01 the date 2029-01-01 is five calendar years ahead, not more, and
  not before 1990-01-01; \<^verbatim>\<open>validate_date\<close> of the first file rejects it as more than five
  years in the future, because its bound is the day plus 1825 days, 2028-12-30.
\<close>

theorem validate_date_A_five_years_ahead:
  "add_years (ymd2ord 2024 1 1) 5 = ymd2ord 2029 1 1 \<and>
   date_1990_01_01 \<le> ymd2ord 2029 1 1 \<and>
   date_add (ymd2ord 2024 1 1) (5 * 365) = Inr (ymd2ord 2028 12 30) \<and>
   validate_date_A (ymd2ord 2024 1 1) (ymd2ord 2029 1 1) date_1990_01_01 =
     Inr (False, ''Date cannot be more than 5 years in the future'')"
  by code_simp

lemma name_re_A_no_letters: "re_match name_re_A ''--''" "re_match name_re_A ''  ''"
  by code_simp+

lemma name_re_B_no_letters: "re_match name_re_B ''--''" "re_match name_re_B ''  ''"
  by code_simp+

lemma no_letters: "\<not> list_ex (\<lambda>c. lower c \<or> upper c) ''--''"
  "\<not> list_ex (\<lambda>c. lower c \<or> upper c) ''  ''"
  by code_simp+

text \<open>
  C8. \<^verbatim>\<open>validate_phone\<close> of the first file accepts \<^verbatim>\<open>(555) 123-4567\<close>, and
  \<^verbatim>\<open>validate_phone\<close> of either file rejects \<^verbatim>\<open>555-CALL-NOW\<close>.
\<close>

theorem phone_scenarios:
  "validate_phone_A ''(555) 123-4567'' = (True, []) \<and>
   validate_phone_A ''555-CALL-NOW'' = (False, ''Please enter a valid phone number'') \<and>
   validate_phone_B ''555-CALL-NOW'' = (False, ''Phone must be 10 digits'')"
  by code_simp

text \<open>
  C10. \<^verbatim>\<open>validate_name\<close> of either file accepts two hyphens and two spaces, strings
  without a letter, whatever the field is called.
\<close>

theorem name_without_letters_accepted:
  "validate_name_A ''--'' field_name = (True, []) \<and>
   validate_name_A ''  '' field_name = (True, []) \<and>
   validate_name_B ''--'' field_name = (True, []) \<and>
   validate_name_B ''  '' field_name = (True, []) \<and>
   \<not> list_ex (\<lambda>c. lower c \<or> upper c) ''--'' \<and>
   \<not> list_ex (\<lambda>c. lower c \<or> upper c) ''  ''"
  using name_re_A_no_letters name_re_B_no_letters no_letters
  by (simp add: validate_name_A_def validate_name_B_def)

section \<open>Validators as lists of rules\<close>

lemma name_A_rules:
  "validate_name_A name field_name =
     first_failure
       [(name \<noteq> [], field_name @ '' is required''),
        (re_match name_re_A name,
         field_name @ '' should only contain letters, spaces, and hyphens''),
        (2 \<le> length name, field_name @ '' should be at least 2 characters long'')]"
  "verdict_ok (validate_name_A name field_name)"
  by (auto simp: validate_name_A_def verdict_ok_def)

lemma email_A_rules:
  "validate_email_A email =
     first_failure [(re_match email_re email, ''Please enter a valid email address'')]"
  "verdict_ok (validate_email_A email)"
  by (auto simp: validate_email_A_def verdict_ok_def)

lemma phone_A_rules:
  "validate_phone_A phone =
     first_failure [(re_match phone_re_A phone, ''Please enter a valid phone number'')]"
  "verdict_ok (validate_phone_A phone)"
  by (auto simp: validate_phone_A_def verdict_ok_def)

lemma age_A_rules:
  "\<exists>r. validate_age_A age = Inr r \<and> verdict_ok r \<and>
     r = first_failure
       [(py_int age \<noteq> Inl ValueError, ''Please enter a valid number''),
        (case py_int age of Inr n \<Rightarrow> 0 \<le> n \<and> n \<le> 120 | Inl e \<Rightarrow> False,
         ''Age must be between 0 and 120'')]"
proof (cases age)
  case (PInt n)
  then show ?thesis
    by (auto simp: validate_age_A_def verdict_ok_def)
next
  case (PStr s)
  then show ?thesis
    by (cases "int_of_str s") (auto simp: validate_age_A_def verdict_ok_def)
qed

lemma date_A_rules:
  assumes "date_add today (5 * 365) = Inr max_future_date"
  shows "\<exists>r. validate_date_A today input_date earliest_date = Inr r \<and> verdict_ok r \<and>
     r = first_failure
       [(earliest_date \<le> input_date, ''Date must be after '' @ strftime_ymd earliest_date),
        (input_date \<le> max_future_date, ''Date cannot be more than 5 years in the future'')]"
  using assms by (auto simp: validate_date_A_def verdict_ok_def)

lemma name_B_rules:
  "validate_name_B name field_name =
     first_failure
       [(name \<noteq> [], field_name @ '' is required''),
        (re_match name_re_B name, field_name @
          '' must contain only letters, spaces, hyphens, or apostrophes (2-50 characters)'')]"
  "verdict_ok (validate_name_B name field_name)"
  by (auto simp: validate_name_B_def verdict_ok_def)

lemma email_B_rules:
  "validate_email_B email =
     first_failure
       [(email \<noteq> [], ''Email is required''),
        (re_match email_re email, ''Invalid email format'')]"
  "verdict_ok (validate_email_B email)"
  by (auto simp: validate_email_B_def verdict_ok_def)

lemma phone_B_rules:
  "validate_phone_B phone =
     first_failure
       [(phone \<noteq> [], ''Phone number is required''),
        (re_match phone_re_B (clean_phone phone), ''Phone must be 10 digits'')]"
  "verdict_ok (validate_phone_B phone)"
  by (auto simp: validate_phone_B_def verdict_ok_def)

lemma age_B_rules:
  "\<exists>r. validate_age_B (PInt n) = Inr r \<and> verdict_ok r \<and>
     r = first_failure
       [(0 < n, ''Age must be greater than 0''), (n \<le> 120, ''Age must be less than 120'')]"
  by (auto simp: verdict_ok_def)

lemma date_B_rules:
  "validate_date_B today check_date =
     first_failure
       [(check_date \<noteq> None, ''Date is required''),
        (case check_date of Some d \<Rightarrow> d \<le> today | None \<Rightarrow> False,
         ''Date cannot be in the future'')]"
  "verdict_ok (validate_date_B today check_date)"
  by (auto simp: validate_date_B_def verdict_ok_def split: option.splits)

text \<open>
  What \<open>first_failure\<close> reports: a list of rules whose messages are not empty gives a
  well-formed record, valid exactly if every rule holds, and otherwise the message of
  a rule that does not hold while all rules before it hold.
\<close>

lemma first_failure_verdict:
  "list_all (\<lambda>r. snd r \<noteq> []) rules \<Longrightarrow> verdict_ok (first_failure rules)"
  by (induction rules rule: first_failure.induct) (auto simp: verdict_ok_def)

lemma first_failure_valid: "fst (first_failure rules) = list_all fst rules"
  by (induction rules rule: first_failure.induct) auto

lemma first_failure_first:
  "\<not> fst (first_failure rules) \<Longrightarrow>
   \<exists>before message after. rules = before @ (False, message) # after \<and>
     list_all fst before \<and> first_failure rules = (False, message)"
proof (induction rules rule: first_failure.induct)
  case 1
  then show ?case by simp
next
  case (2 holds message rules)
  show ?case
  proof (cases holds)
    case True
    with 2 obtain before m after where
      "rules = before @ (False, m) # after" "list_all fst before"
      "first_failure rules = (False, m)" by auto
    with True have "(holds, message) # rules = ((holds, message) # before) @ (False, m) # after \<and>
      list_all fst ((holds, message) # before) \<and>
      first_failure ((holds, message) # rules) = (False, m)" by simp
    then show ?thesis by blast
  next
    case False
    then have "(holds, message) # rules = [] @ (False, message) # rules \<and>
      list_all fst [] \<and> first_failure ((holds, message) # rules) = (False, message)"
      by simp
    then show ?thesis by blast
  qed
qed


text \<open>
  C3, as stated, fails on one validator and one kind of raw input: \<^verbatim>\<open>validate_age\<close> of
  the second file does not return a record on a string, it raises.
\<close>

theorem validate_age_B_no_record_on_string:
  "\<not> (\<exists>r. validate_age_B (PStr ''25'') = Inr r \<and> verdict_ok r)"
  by simp

text \<open>
  C3, amended. On the raw inputs it is written for, every validator of the two files
  returns a well-formed record, (valid, empty message) or (invalid, message that is not
  empty), and the record is the first violated rule of the validator's rules in their
  order. The inputs are: strings for names, e-mail addresses and telephone numbers;
  for the age a string or an integer in the first file, an integer in the second; a
  date in the first file (on a day whose bound, 1825 days ahead, is still a date), a
  date or \<^verbatim>\<open>None\<close> in the second. On a string, \<^verbatim>\<open>validate_age\<close> of the second file
  raises \<^verbatim>\<open>TypeError\<close> and returns nothing.
\<close>

theorem validators_report_first_failure:
  "validate_name_A name field_name =
     first_failure
       [(name \<noteq> [], field_name @ '' is required''),
        (re_match name_re_A name,
         field_name @ '' should only contain letters, spaces, and hyphens''),
        (2 \<le> length name, field_name @ '' should be at least 2 characters long'')] \<and>
   verdict_ok (validate_name_A name field_name) \<and>
   validate_email_A email =
     first_failure [(re_match email_re email, ''Please enter a valid email address'')] \<and>
   verdict_ok (validate_email_A email) \<and>
   validate_phone_A phone =
     first_failure [(re_match phone_re_A phone, ''Please enter a valid phone number'')] \<and>
   verdict_ok (validate_phone_A phone) \<and>
   (\<exists>r. validate_age_A age = Inr r \<and> verdict_ok r \<and>
     r = first_failure
       [(py_int age \<noteq> Inl ValueError, ''Please enter a valid number''),
        (case py_int age of Inr n \<Rightarrow> 0 \<le> n \<and> n \<le> 120 | Inl e \<Rightarrow> False,
         ''Age must be between 0 and 120'')]) \<and>
   (date_add today (5 * 365) = Inr max_future_date \<longrightarrow>
     (\<exists>r. validate_date_A today input_date earliest_date = Inr r \<and> verdict_ok r \<and>
       r = first_failure
         [(earliest_date \<le> input_date, ''Date must be after '' @ strftime_ymd earliest_date),
          (input_date \<le> max_future_date,
           ''Date cannot be more than 5 years in the future'')])) \<and>
   validate_name_B name field_name =
     first_failure
       [(name \<noteq> [], field_name @ '' is required''),
        (re_match name_re_B name, field_name @
          '' must contain only letters, spaces, hyphens, or apostrophes (2-50 characters)'')] \<and>
   verdict_ok (validate_name_B name field_name) \<and>
   validate_email_B email =
     first_failure
       [(email \<noteq> [], ''Email is required''),
        (re_match email_re email, ''Invalid email format'')] \<and>
   verdict_ok (validate_email_B email) \<and>
   validate_phone_B phone =
     first_failure
       [(phone \<noteq> [], ''Phone number is required''),
        (re_match phone_re_B (clean_phone phone), ''Phone must be 10 digits'')] \<and>
   verdict_ok (validate_phone_B phone) \<and>
   (\<exists>r. validate_age_B (PInt n) = Inr r \<and> verdict_ok r \<and>
     r = first_failure
       [(0 < n, ''Age must be greater than 0''), (n \<le> 120, ''Age must be less than 120'')]) \<and>
   validate_date_B today check_date =
     first_failure
       [(check_date \<noteq> None, ''Date is required''),
        (case check_date of Some d \<Rightarrow> d \<le> today | None \<Rightarrow> False,
         ''Date cannot be in the future'')] \<and>
   verdict_ok (validate_date_B today check_date) \<and>
   validate_age_B (PStr s) = Inl TypeError"
  by (intro conjI impI name_A_rules email_A_rules phone_A_rules age_A_rules date_A_rules
      name_B_rules email_B_rules phone_B_rules age_B_rules date_B_rules
      validate_age_B.simps(2))

lemma before_1990: "\<not> date_1990_01_01 \<le> ymd2ord 1989 12 31"
  by code_simp

theorem validators_report_first_failure_witness:
  "date_add scenario_today (5 * 365) = Inr 740863 \<and>
   validate_date_A scenario_today (ymd2ord 1989 12 31) date_1990_01_01 =
     Inr (False, ''Date must be after 1990-01-01'') \<and>
   verdict_ok (False, ''Date must be after 1990-01-01'')"
proof -
  from validators_report_first_failure [where today = scenario_today
      and max_future_date = 740863 and input_date = "ymd2ord 1989 12 31"
      and earliest_date = date_1990_01_01]
  have "date_add scenario_today (5 * 365) = Inr 740863 \<longrightarrow>
     (\<exists>r. validate_date_A scenario_today (ymd2ord 1989 12 31) date_1990_01_01 = Inr r \<and>
       verdict_ok r \<and>
       r = first_failure
         [(date_1990_01_01 \<le> ymd2ord 1989 12 31,
           ''Date must be after '' @ strftime_ymd date_1990_01_01),
          (ymd2ord 1989 12 31 \<le> 740863,
           ''Date cannot be more than 5 years in the future'')])"
    by blast
  with scenario_date_add before_1990 strftime_1990 show ?thesis
    by auto
qed

end
